theory Spec2Isabelle
  imports Main "HOL-Library.Sublist"
begin

section \<open>Python values and the operations the script applies to them\<close>

text \<open>
  The script (\<^verbatim>\<open>news_digest_script.py\<close>) works on whatever \<^verbatim>\<open>response.json()\<close> returns, so
  the values are those of decoded JSON. A Python \<^verbatim>\<open>str\<close> is a \<^typ>\<open>string\<close>, one
  \<^typ>\<open>char\<close> per character; a \<^verbatim>\<open>dict\<close> is an association list in insertion order,
  read with \<^const>\<open>map_of\<close>, each key listed once. Numbers are integers: a JSON real
  behaves like one in every operation below (it has no \<^verbatim>\<open>get\<close>, no length, and can be neither
  indexed, sliced nor iterated).
\<close>

datatype json =
    JNull
  | JBool bool
  | JNum int
  | JStr string
  | JArr "json list"
  | JObj "(string \<times> json) list"

datatype py_error =
    AttributeError
  | TypeError
  | IndexError
  | KeyError
  | ValueError
  | RequestException
  | HTTPError
  | JSONDecodeError
  | SMTPException

text \<open>What \<^verbatim>\<open>print\<close> writes: a plain line, or a prefix followed by the text of an exception.\<close>

datatype line = Line string | ErrLine string py_error

definition and_then :: "py_error + 'a \<Rightarrow> ('a \<Rightarrow> py_error + 'b) \<Rightarrow> py_error + 'b" where
  "and_then r f = (case r of Inl e \<Rightarrow> Inl e | Inr v \<Rightarrow> f v)"

text \<open>\<^verbatim>\<open>x.get(k, d)\<close>: only a dict has the method.\<close>

fun py_get :: "json \<Rightarrow> string \<Rightarrow> json \<Rightarrow> py_error + json" where
  "py_get (JObj kvs) k d = Inr (case map_of kvs k of None \<Rightarrow> d | Some v \<Rightarrow> v)"
| "py_get _ k d = Inl AttributeError"

text \<open>\<^verbatim>\<open>x[i]\<close> for a literal index \<open>i \<ge> 0\<close>. The keys of a decoded JSON object are strings, so
  an integer is never among them.\<close>

fun py_index :: "json \<Rightarrow> nat \<Rightarrow> py_error + json" where
  "py_index (JArr xs) i = (if i < length xs then Inr (xs ! i) else Inl IndexError)"
| "py_index (JStr s) i = (if i < length s then Inr (JStr [s ! i]) else Inl IndexError)"
| "py_index (JObj kvs) i = Inl KeyError"
| "py_index _ i = Inl TypeError"

fun py_len :: "json \<Rightarrow> py_error + nat" where
  "py_len (JArr xs) = Inr (length xs)"
| "py_len (JStr s) = Inr (length s)"
| "py_len (JObj kvs) = Inr (length kvs)"
| "py_len _ = Inl TypeError"

text \<open>
  \<^verbatim>\<open>xs[:n]\<close> on a sequence: a negative \<open>n\<close> counts from the end. Slicing a dict raises
  (\<^verbatim>\<open>TypeError\<close> up to Python 3.11, \<^verbatim>\<open>KeyError\<close> from 3.12 on; every caller treats
  the two alike), and so does slicing \<^verbatim>\<open>None\<close>, a number or a boolean.
\<close>

definition slice_to :: "'a list \<Rightarrow> int \<Rightarrow> 'a list" where
  "slice_to xs n = (if 0 \<le> n then take (nat n) xs else take (length xs - nat (- n)) xs)"

fun py_slice_to :: "json \<Rightarrow> int \<Rightarrow> py_error + json" where
  "py_slice_to (JArr xs) n = Inr (JArr (slice_to xs n))"
| "py_slice_to (JStr s) n = Inr (JStr (slice_to s n))"
| "py_slice_to _ n = Inl TypeError"

text \<open>The elements a \<^verbatim>\<open>for\<close> loop visits: a str yields its characters, a dict its keys.\<close>

fun py_iter :: "json \<Rightarrow> py_error + json list" where
  "py_iter (JArr xs) = Inr xs"
| "py_iter (JStr s) = Inr (map (\<lambda>c. JStr [c]) s)"
| "py_iter (JObj kvs) = Inr (map (\<lambda>kv. JStr (fst kv)) kvs)"
| "py_iter _ = Inl TypeError"

text \<open>
  A value inside an f-string is converted by \<^verbatim>\<open>str()\<close>. A str is itself; the text of any
  other value (\<^verbatim>\<open>None\<close>, numbers, lists, dicts) is the language runtime's, taken as the
  parameter \<open>other\<close>.
\<close>

fun py_str :: "(json \<Rightarrow> string) \<Rightarrow> json \<Rightarrow> string" where
  "py_str other (JStr s) = s"
| "py_str other v = other v"

section \<open>The world outside the process\<close>

text \<open>
  What a run depends on and the script does not hold: the environment variables, the answer
  to each HTTP request (a function of the URL and the query parameters), the clock, read
  in the two formats the script uses, and the mail server.
\<close>

datatype http_outcome =
    ConnectionFailed
  | StatusError
  | InvalidJson
  | Payload json

record email =
  subject :: string
  sender :: "string option"
  recipient :: "string option"
  html_part :: string

record world =
  environ :: "string \<Rightarrow> string option"
  http :: "string \<Rightarrow> (string \<times> json) list \<Rightarrow> http_outcome"
  now_long :: string
  now_iso :: string
  smtp :: "email \<Rightarrow> py_error option"

text \<open>
  \<^verbatim>\<open>requests.get(url, params=params, timeout=10)\<close>, \<^verbatim>\<open>raise_for_status()\<close> and
  \<^verbatim>\<open>response.json()\<close>: each of the three can raise.
\<close>

definition get_json :: "world \<Rightarrow> string \<Rightarrow> (string \<times> json) list \<Rightarrow> py_error + json" where
  "get_json w u params =
     (case http w u params of
        ConnectionFailed \<Rightarrow> Inl RequestException
      | StatusError \<Rightarrow> Inl HTTPError
      | InvalidJson \<Rightarrow> Inl JSONDecodeError
      | Payload data \<Rightarrow> Inr data)"

section \<open>NewsDigestGenerator\<close>

record generator =
  news_api_key :: "string option"
  sports_api_key :: string
  sender_email :: "string option"
  sender_password :: "string option"
  recipient_email :: "string option"

definition truthy :: "string option \<Rightarrow> bool" where
  "truthy v = (case v of None \<Rightarrow> False | Some s \<Rightarrow> s \<noteq> [])"

definition init :: "world \<Rightarrow> py_error + generator" where
  "init w =
     (let g = \<lparr> news_api_key = environ w ''NEWS_API_KEY'',
                sports_api_key = (case environ w ''SPORTS_API_KEY'' of None \<Rightarrow> [] | Some s \<Rightarrow> s),
                sender_email = environ w ''SENDER_EMAIL'',
                sender_password = environ w ''SENDER_PASSWORD'',
                recipient_email = environ w ''RECIPIENT_EMAIL'' \<rparr>
      in if \<not> list_all truthy
              [news_api_key g, sender_email g, sender_password g, recipient_email g]
         then Inl ValueError else Inr g)"

subsection \<open>fetch_news\<close>

record article =
  title :: json
  description :: json
  url :: json
  source :: json
  image_field :: json
  publishedAt :: json

definition opt_str :: "string option \<Rightarrow> json" where
  "opt_str v = (case v of None \<Rightarrow> JNull | Some s \<Rightarrow> JStr s)"

definition news_url :: string where
  "news_url = ''https://newsapi.org/v2/everything''"

definition news_params :: "generator \<Rightarrow> string \<Rightarrow> int \<Rightarrow> (string \<times> json) list" where
  "news_params g query num_articles =
     [(''q'', JStr query), (''sortBy'', JStr ''popularity''), (''language'', JStr ''en''),
      (''pageSize'', JNum num_articles), (''apiKey'', opt_str (news_api_key g))]"

text \<open>The dict literal of lines 44--51; its entries are evaluated in the order written.\<close>

definition article_record :: "json \<Rightarrow> py_error + article" where
  "article_record a =
     and_then (py_get a ''title'' (JStr [])) (\<lambda>t.
     and_then (py_get a ''description'' (JStr [])) (\<lambda>d.
     and_then (py_get a ''url'' (JStr [])) (\<lambda>u.
     and_then (py_get a ''source'' (JObj [])) (\<lambda>s.
     and_then (py_get s ''name'' (JStr [])) (\<lambda>n.
     and_then (py_get a ''urlToImage'' (JStr [])) (\<lambda>i.
     and_then (py_get a ''publishedAt'' (JStr [])) (\<lambda>p.
       Inr \<lparr> title = t, description = d, url = u, source = n,
             image_field = i, publishedAt = p \<rparr>)))))))"

fun articles_loop :: "json list \<Rightarrow> article list \<Rightarrow> py_error + article list" where
  "articles_loop [] articles = Inr articles"
| "articles_loop (a # rest) articles =
     (case article_record a of
        Inl e \<Rightarrow> Inl e
      | Inr r \<Rightarrow> articles_loop rest (articles @ [r]))"

text \<open>The body of the \<^verbatim>\<open>try\<close> of \<^verbatim>\<open>fetch_news\<close> (lines 30--52).\<close>

definition fetch_news_try :: "world \<Rightarrow> generator \<Rightarrow> string \<Rightarrow> int \<Rightarrow> py_error + article list" where
  "fetch_news_try w g query num_articles =
     and_then (get_json w news_url (news_params g query num_articles)) (\<lambda>data.
     and_then (py_get data ''articles'' (JArr [])) (\<lambda>v.
     and_then (py_slice_to v num_articles) (\<lambda>sl.
     and_then (py_iter sl) (\<lambda>items. articles_loop items []))))"

definition fetch_news :: "world \<Rightarrow> generator \<Rightarrow> string \<Rightarrow> int \<Rightarrow> article list \<times> line list" where
  "fetch_news w g query num_articles =
     (case fetch_news_try w g query num_articles of
        Inr articles \<Rightarrow> (articles, [])
      | Inl e \<Rightarrow> ([], [ErrLine (''Error fetching news for '' @ [CHR 0x27] @ query @ [CHR 0x27] @ '': '') e]))"

subsection \<open>The scoreboard fetchers\<close>

record game =
  home :: json
  away :: json
  home_score :: json
  away_score :: json
  status :: json

record scores =
  games :: "game list"

record dated_scores = scores +
  date :: string

text \<open>\<^verbatim>\<open>event.get('competitions', [{}])[0]\<close>\<close>

definition competition0 :: "json \<Rightarrow> py_error + json" where
  "competition0 event =
     and_then (py_get event ''competitions'' (JArr [JObj []])) (\<lambda>cs. py_index cs 0)"

text \<open>
  One pass of the loop body the three scoreboard fetchers share word for word (lines 67--75,
  91--99 and 128--136): \<open>None\<close> when the event is skipped, the appended record otherwise.
  The source indexes \<^verbatim>\<open>competitors[0]\<close> and \<^verbatim>\<open>competitors[1]\<close> twice each; the second
  read gives the value of the first, so \<open>c0\<close> and \<open>c1\<close> are used again.
\<close>

definition event_game :: "json \<Rightarrow> py_error + game option" where
  "event_game event =
     and_then (competition0 event) (\<lambda>c.
     and_then (py_get c ''competitors'' (JArr [])) (\<lambda>competitors.
     and_then (py_len competitors) (\<lambda>n.
     if 2 \<le> n then
       and_then (py_index competitors 0) (\<lambda>c0.
       and_then (py_get c0 ''team'' (JObj [])) (\<lambda>t0.
       and_then (py_get t0 ''displayName'' (JStr [])) (\<lambda>h.
       and_then (py_index competitors 1) (\<lambda>c1.
       and_then (py_get c1 ''team'' (JObj [])) (\<lambda>t1.
       and_then (py_get t1 ''displayName'' (JStr [])) (\<lambda>a.
       and_then (py_get c0 ''score'' (JStr ''-'')) (\<lambda>hs.
       and_then (py_get c1 ''score'' (JStr ''-'')) (\<lambda>as.
       and_then (competition0 event) (\<lambda>c'.
       and_then (py_get c' ''status'' (JObj [])) (\<lambda>st.
       and_then (py_get st ''type'' (JObj [])) (\<lambda>ty.
       and_then (py_get ty ''description'' (JStr ''TBD'')) (\<lambda>d.
         Inr (Some \<lparr> home = h, away = a, home_score = hs, away_score = as,
                     status = d \<rparr>)))))))))))))
     else Inr None)))"

fun games_loop :: "json list \<Rightarrow> game list \<Rightarrow> py_error + game list" where
  "games_loop [] gs = Inr gs"
| "games_loop (event # rest) gs =
     (case event_game event of
        Inl e \<Rightarrow> Inl e
      | Inr None \<Rightarrow> games_loop rest gs
      | Inr (Some r) \<Rightarrow> games_loop rest (gs @ [r]))"

definition scoreboard_url :: "string \<Rightarrow> string" where
  "scoreboard_url sport = ''https://site.api.espn.com/apis/site/v2/sports/'' @ sport @ ''/scoreboard''"

text \<open>Lines 60--75 and 84--99: every event of the payload is visited.\<close>

definition scoreboard_try :: "world \<Rightarrow> string \<Rightarrow> py_error + game list" where
  "scoreboard_try w sport =
     and_then (get_json w (scoreboard_url sport) []) (\<lambda>data.
     and_then (py_get data ''events'' (JArr [])) (\<lambda>v.
     and_then (py_iter v) (\<lambda>events. games_loop events [])))"

definition fetch_nba_scores :: "world \<Rightarrow> dated_scores \<times> line list" where
  "fetch_nba_scores w =
     (case scoreboard_try w ''basketball/nba'' of
        Inr gs \<Rightarrow> (\<lparr> games = gs, date = now_iso w \<rparr>, [])
      | Inl e \<Rightarrow> (\<lparr> games = [], date = now_iso w \<rparr>, [ErrLine ''Error fetching NBA scores: '' e]))"

definition fetch_nfl_scores :: "world \<Rightarrow> scores \<times> line list" where
  "fetch_nfl_scores w =
     (case scoreboard_try w ''football/nfl'' of
        Inr gs \<Rightarrow> (\<lparr> games = gs \<rparr>, [])
      | Inl e \<Rightarrow> (\<lparr> games = [] \<rparr>, [ErrLine ''Error fetching NFL scores: '' e]))"

definition league_map :: "(string \<times> string) list" where
  "league_map =
     [(''premier-league'', ''soccer/eng.1''),
      (''champions-league'', ''soccer/uefa.champions''),
      (''europa-league'', ''soccer/uefa.europa''),
      (''championship'', ''soccer/eng.2''),
      (''fa-cup'', ''soccer/eng.fa''),
      (''carabao-cup'', ''soccer/eng.cup'')]"

text \<open>Lines 121--137, after the league has been looked up: the first five events only.\<close>

definition soccer_try :: "world \<Rightarrow> string \<Rightarrow> py_error + game list" where
  "soccer_try w league_id =
     and_then (get_json w (scoreboard_url league_id) []) (\<lambda>data.
     and_then (py_get data ''events'' (JArr [])) (\<lambda>v.
     and_then (py_slice_to v 5) (\<lambda>sl.
     and_then (py_iter sl) (\<lambda>events. games_loop events []))))"

definition fetch_soccer_scores :: "world \<Rightarrow> string \<Rightarrow> game list \<times> line list" where
  "fetch_soccer_scores w league =
     (let league_id = (case map_of league_map league of None \<Rightarrow> [] | Some i \<Rightarrow> i)
      in if league_id = [] then ([], [])
         else (case soccer_try w league_id of
                 Inr gs \<Rightarrow> (gs, [])
               | Inl e \<Rightarrow> ([], [ErrLine (''Error fetching '' @ league @ '' scores: '') e])))"

subsection \<open>str.format\<close>

text \<open>
  \<^verbatim>\<open>template.format(*args)\<close> with positional arguments that are strs, as the interpreter
  reads it, left to right. In literal text \<^verbatim>\<open>{{\<close> and \<^verbatim>\<open>}}\<close> stand for one brace, a lone
  \<^verbatim>\<open>}\<close> is an error, and \<^verbatim>\<open>{\<close> opens a replacement field. The name of the field runs to
  the first \<^verbatim>\<open>}\<close>, \<^verbatim>\<open>:\<close> or \<^verbatim>\<open>!\<close> outside square brackets and must not hold a \<^verbatim>\<open>{\<close>.
  After \<^verbatim>\<open>!\<close> comes one conversion character, then \<^verbatim>\<open>}\<close> or \<^verbatim>\<open>:\<close>; after \<^verbatim>\<open>:\<close> the format
  specification runs to the \<^verbatim>\<open>}\<close> that closes the field, with nested braces counted. Each
  field is resolved as soon as it has been read, before the rest of the template is looked
  at.
\<close>

definition is_digit :: "char \<Rightarrow> bool" where
  "is_digit c = (c \<in> set ''0123456789'')"

fun digits_value :: "string \<Rightarrow> nat \<Rightarrow> nat" where
  "digits_value [] acc = acc"
| "digits_value (c # cs) acc = digits_value cs (10 * acc + (of_char c - 48))"

text \<open>
  The first part of a field name is what precedes the first \<^verbatim>\<open>.\<close> or \<^verbatim>\<open>[\<close>. An empty first
  part takes the next positional argument, a number the argument at that position, and
  anything else is the name of a keyword argument: the script passes none, so the lookup
  raises \<^verbatim>\<open>KeyError\<close>. The lookup comes before the conversion and the format specification
  are applied. Applying attribute lookups, a conversion or a specification to an argument
  that was found is outside this model (the result is reported as \<^verbatim>\<open>ValueError\<close>), and so
  is the check that automatic and explicit numbering are not mixed; the script's template
  has no field of these kinds.
\<close>

definition format_field ::
  "string list \<Rightarrow> nat \<Rightarrow> string \<Rightarrow> string \<Rightarrow> py_error + (string \<times> nat)" where
  "format_field args auto name rest =
     (let first = takeWhile (\<lambda>c. c \<noteq> CHR ''.'' \<and> c \<noteq> CHR ''['') name
      in if first \<noteq> [] \<and> \<not> list_all is_digit first then Inl KeyError
         else (let i = (if first = [] then auto else digits_value first 0)
               in if length args \<le> i then Inl IndexError
                  else if first \<noteq> name \<or> rest \<noteq> [] then Inl ValueError
                  else Inr (args ! i, Suc auto)))"

text \<open>
  Where the reader is: in literal text, in a field name, inside square brackets of a field
  name, at the conversion character, behind it, or in the format specification (with the
  number of braces open). The states of a field carry its name and what has been read of
  the field after the name.
\<close>

datatype scan_state =
    Literal
  | Name string
  | Bracket string
  | Conversion string
  | Converted string string
  | Spec nat string string

fun format_scan :: "string list \<Rightarrow> nat \<Rightarrow> scan_state \<Rightarrow> string \<Rightarrow> string \<Rightarrow> py_error + string" where
  "format_scan args auto Literal out [] = Inr out"
| "format_scan args auto (Name name) out [] = Inl ValueError"
| "format_scan args auto (Bracket name) out [] = Inl ValueError"
| "format_scan args auto (Conversion name) out [] = Inl ValueError"
| "format_scan args auto (Converted name rest) out [] = Inl ValueError"
| "format_scan args auto (Spec depth name rest) out [] = Inl ValueError"
| "format_scan args auto Literal out [c] =
     (if c = CHR ''{'' \<or> c = CHR ''}'' then Inl ValueError else Inr (out @ [c]))"
| "format_scan args auto Literal out (c # c' # cs) =
     (if c = CHR ''{'' then
        (if c' = CHR ''{'' then format_scan args auto Literal (out @ [c]) cs
         else format_scan args auto (Name []) out (c' # cs))
      else if c = CHR ''}'' then
        (if c' = CHR ''}'' then format_scan args auto Literal (out @ [c]) cs
         else Inl ValueError)
      else format_scan args auto Literal (out @ [c]) (c' # cs))"
| "format_scan args auto (Name name) out (c # cs) =
     (if c = CHR ''{'' then Inl ValueError
      else if c = CHR ''['' then format_scan args auto (Bracket (name @ [c])) out cs
      else if c = CHR ''}'' then
        (case format_field args auto name [] of
           Inl e \<Rightarrow> Inl e
         | Inr (s, auto') \<Rightarrow> format_scan args auto' Literal (out @ s) cs)
      else if c = CHR '':'' then format_scan args auto (Spec 1 name [c]) out cs
      else if c = CHR ''!'' then format_scan args auto (Conversion name) out cs
      else format_scan args auto (Name (name @ [c])) out cs)"
| "format_scan args auto (Bracket name) out (c # cs) =
     (if c = CHR '']'' then format_scan args auto (Name (name @ [c])) out cs
      else format_scan args auto (Bracket (name @ [c])) out cs)"
| "format_scan args auto (Conversion name) out (c # cs) =
     format_scan args auto (Converted name [CHR ''!'', c]) out cs"
| "format_scan args auto (Converted name rest) out (c # cs) =
     (if c = CHR ''}'' then
        (case format_field args auto name rest of
           Inl e \<Rightarrow> Inl e
         | Inr (s, auto') \<Rightarrow> format_scan args auto' Literal (out @ s) cs)
      else if c = CHR '':'' then format_scan args auto (Spec 1 name (rest @ [c])) out cs
      else Inl ValueError)"
| "format_scan args auto (Spec depth name rest) out (c # cs) =
     (if c = CHR ''{'' then format_scan args auto (Spec (Suc depth) name (rest @ [c])) out cs
      else if c = CHR ''}'' then
        (if depth = 1 then
           (case format_field args auto name rest of
              Inl e \<Rightarrow> Inl e
            | Inr (s, auto') \<Rightarrow> format_scan args auto' Literal (out @ s) cs)
         else format_scan args auto (Spec (depth - 1) name (rest @ [c])) out cs)
      else format_scan args auto (Spec depth name (rest @ [c])) out cs)"

definition py_format :: "string \<Rightarrow> string list \<Rightarrow> py_error + string" where
  "py_format template args = format_scan args 0 Literal [] template"

subsection \<open>generate_html_digest\<close>

text \<open>
  The four pictographs of the script's texts are not ASCII; they are kept as the bytes the
  source file holds for them.
\<close>

definition news_symbol :: string where
  "news_symbol = [CHR 0xEF, CHR 0xA3, CHR 0xBF, CHR 0xC3, CHR 0xBC, CHR 0xC3, CHR 0xAC,
                  CHR 0xE2, CHR 0x88, CHR 0x9E]"

definition arrow_symbol :: string where
  "arrow_symbol = [CHR 0xE2, CHR 0x80, CHR 0x9A, CHR 0xC3, CHR 0x9C, CHR 0xC3, CHR 0xAD]"

definition basketball_symbol :: string where
  "basketball_symbol = [CHR 0xEF, CHR 0xA3, CHR 0xBF, CHR 0xC3, CHR 0xBC, CHR 0xC3, CHR 0xA8,
                        CHR 0xC3, CHR 0x84]"

definition soccer_symbol :: string where
  "soccer_symbol = [CHR 0xE2, CHR 0x80, CHR 0x9A, CHR 0xC3, CHR 0xB6, CHR 0xCE, CHR 0xA9]"

text \<open>The template of lines 144--166, to which \<^verbatim>\<open>.format\<close> is applied.\<close>

definition html_template :: string where
  \<open>html_template =
     ''\<newline>'' @
     ''        <html>\<newline>'' @
     ''            <head>\<newline>'' @
     ''                <style>\<newline>'' @
     ''                    body { font-family: Arial, sans-serif; background-color: #f5f5f5; }\<newline>'' @
     ''                    .container { max-width: 900px; margin: 0 auto; background: white; padding: 20px; }\<newline>'' @
     ''                    h1 { color: #333; border-bottom: 3px solid #007bff; padding-bottom: 10px; }\<newline>'' @
     ''                    h2 { color: #007bff; margin-top: 30px; border-left: 4px solid #007bff; padding-left: 10px; }\<newline>'' @
     ''                    .article { margin: 15px 0; padding: 15px; border-left: 4px solid #ddd; }\<newline>'' @
     ''                    .article-title { font-weight: bold; color: #333; }\<newline>'' @
     ''                    .article-summary { color: #666; font-size: 14px; margin: 5px 0; }\<newline>'' @
     ''                    .article-source { color: #999; font-size: 12px; }\<newline>'' @
     ''                    .article-link { color: #007bff; text-decoration: none; font-size: 12px; }\<newline>'' @
     ''                    .score-item { padding: 10px; margin: 5px 0; background: #f9f9f9; border-radius: 4px; }\<newline>'' @
     ''                    .score-teams { font-weight: bold; }\<newline>'' @
     ''                    .score-final { color: #007bff; font-weight: bold; }\<newline>'' @
     ''                    .footer { text-align: center; color: #999; font-size: 12px; margin-top: 40px; padding-top: 20px; border-top: 1px solid #ddd; }\<newline>'' @
     ''                </style>\<newline>'' @
     ''            </head>\<newline>'' @
     ''            <body>\<newline>'' @
     ''                <div class="container">\<newline>'' @
     ''                    <h1>'' @ news_symbol @ '' Daily News Digest - {}</h1>\<newline>'' @
     ''        ''\<close>

definition news_sections :: "(string \<times> string \<times> int) list" where
  "news_sections =
     [(''Top 5 US News'', ''US news'', 5),
      (''Top 5 Europe News'', ''Europe news'', 5),
      (''Top 5 Africa News'', ''Africa news'', 5),
      (''Top 3 India News'', ''India news'', 3),
      (''Top 3 China News'', ''China news'', 3),
      (''Top 5 NBA News'', ''NBA basketball'', 5),
      (''Top 5 NFL News'', ''NFL football'', 5),
      (''Top 5 Premier League News'', ''English Premier League'', 5),
      (''Top 2 West Ham News'', ''West Ham United'', 2)]"

definition soccer_leagues :: "(string \<times> string) list" where
  "soccer_leagues =
     [(''Premier League'', ''premier-league''),
      (''Champions League'', ''champions-league''),
      (''Europa League'', ''europa-league''),
      (''EFL Championship'', ''championship''),
      (''FA Cup'', ''fa-cup''),
      (''Carabao Cup'', ''carabao-cup'')]"

text \<open>What the f-string of lines 187--194 puts inside the summary element.\<close>

definition summary_text :: "(json \<Rightarrow> string) \<Rightarrow> article \<Rightarrow> py_error + string" where
  "summary_text other a =
     and_then (py_slice_to (description a) 200) (\<lambda>d. Inr (py_str other d @ ''...''))"

definition render_article :: "(json \<Rightarrow> string) \<Rightarrow> article \<Rightarrow> py_error + string" where
  \<open>render_article other a =
     and_then (summary_text other a) (\<lambda>summary. Inr (
       ''\<newline>'' @
       ''                    <div class="article">\<newline>'' @
       ''                        <div class="article-title">'' @ py_str other (title a) @ ''</div>\<newline>'' @
       ''                        <div class="article-summary">'' @ summary @ ''</div>\<newline>'' @
       ''                        <div class="article-source">'' @ py_str other (source a) @ ''</div>\<newline>'' @
       ''                        <a href="'' @ py_str other (url a) @
         ''" class="article-link">Read full article '' @ arrow_symbol @ ''</a>\<newline>'' @
       ''                    </div>\<newline>'' @
       ''                    ''))\<close>

fun articles_html :: "(json \<Rightarrow> string) \<Rightarrow> article list \<Rightarrow> string \<Rightarrow> py_error + string" where
  "articles_html other [] html = Inr html"
| "articles_html other (a # rest) html =
     (case render_article other a of
        Inl e \<Rightarrow> Inl e
      | Inr s \<Rightarrow> articles_html other rest (html @ s))"

definition no_articles :: string where
  \<open>no_articles = ''<p style='color: #999;'>No articles found at this time.</p>\<newline>''\<close>

definition no_games :: string where
  \<open>no_games = ''<p style='color: #999;'>No games to display.</p>\<newline>''\<close>

definition no_matches :: string where
  \<open>no_matches = ''<p style='color: #999;'>No matches to display.</p>\<newline>''\<close>

text \<open>The loop of lines 181--196, threading the html built so far and the lines printed.\<close>

fun news_loop ::
  "(json \<Rightarrow> string) \<Rightarrow> world \<Rightarrow> generator \<Rightarrow> (string \<times> string \<times> int) list \<Rightarrow>
     string \<Rightarrow> line list \<Rightarrow> (py_error + string) \<times> line list" where
  "news_loop other w g [] html out = (Inr html, out)"
| "news_loop other w g ((section_title, query, count) # rest) html out =
     (case fetch_news w g query count of
        (articles, printed) \<Rightarrow>
          (if articles \<noteq> [] then
             (case articles_html other articles (html @ ''<h2>'' @ section_title @ ''</h2>\<newline>'') of
                Inl e \<Rightarrow> (Inl e, out @ printed)
              | Inr html' \<Rightarrow> news_loop other w g rest html' (out @ printed))
           else news_loop other w g rest
                  (html @ ''<h2>'' @ section_title @ ''</h2>\<newline>'' @ no_articles) (out @ printed)))"

definition render_nba_game :: "(json \<Rightarrow> string) \<Rightarrow> game \<Rightarrow> string" where
  \<open>render_nba_game other game =
     ''\<newline>'' @
     ''                <div class="score-item">\<newline>'' @
     ''                    <div class="score-teams">'' @ py_str other (away game) @ '' @ '' @
       py_str other (home game) @ ''</div>\<newline>'' @
     ''                    <div class="score-final">'' @ py_str other (away_score game) @ '' - '' @
       py_str other (home_score game) @ ''</div>\<newline>'' @
     ''                    <div class="score-source">'' @ py_str other (status game) @ ''</div>\<newline>'' @
     ''                </div>\<newline>'' @
     ''                ''\<close>

definition render_soccer_game :: "(json \<Rightarrow> string) \<Rightarrow> game \<Rightarrow> string" where
  \<open>render_soccer_game other game =
     ''\<newline>'' @
     ''                    <div class="score-item">\<newline>'' @
     ''                        <div class="score-teams">'' @ py_str other (away game) @ '' vs '' @
       py_str other (home game) @ ''</div>\<newline>'' @
     ''                        <div class="score-final">'' @ py_str other (away_score game) @ '' - '' @
       py_str other (home_score game) @ ''</div>\<newline>'' @
     ''                    </div>\<newline>'' @
     ''                    ''\<close>

fun nba_games_html :: "(json \<Rightarrow> string) \<Rightarrow> game list \<Rightarrow> string \<Rightarrow> string" where
  "nba_games_html other [] html = html"
| "nba_games_html other (game # rest) html =
     nba_games_html other rest (html @ render_nba_game other game)"

fun soccer_games_html :: "(json \<Rightarrow> string) \<Rightarrow> game list \<Rightarrow> string \<Rightarrow> string" where
  "soccer_games_html other [] html = html"
| "soccer_games_html other (game # rest) html =
     soccer_games_html other rest (html @ render_soccer_game other game)"

text \<open>The loop of lines 224--236.\<close>

fun soccer_loop ::
  "(json \<Rightarrow> string) \<Rightarrow> world \<Rightarrow> (string \<times> string) list \<Rightarrow> string \<Rightarrow> line list \<Rightarrow>
     string \<times> line list" where
  "soccer_loop other w [] html out = (html, out)"
| "soccer_loop other w ((league_name, league_id) # rest) html out =
     (case fetch_soccer_scores w league_id of
        (gs, printed) \<Rightarrow>
          (if gs \<noteq> [] then
             soccer_loop other w rest
               (soccer_games_html other gs (html @ ''<h3>'' @ league_name @ ''</h3>\<newline>''))
               (out @ printed)
           else soccer_loop other w rest
                  (html @ ''<h3>'' @ league_name @ ''</h3>\<newline>'' @ no_matches) (out @ printed)))"

definition nba_heading :: string where
  "nba_heading = ''<h2>'' @ basketball_symbol @ '' NBA Scores (Previous Day)</h2>\<newline>''"

definition soccer_heading :: string where
  "soccer_heading = ''<h2>'' @ soccer_symbol @ '' Soccer Scores</h2>\<newline>''"

definition html_footer :: string where
  \<open>html_footer =
     ''\<newline>'' @
     ''                    <div class="footer">\<newline>'' @
     ''                        <p>This is an automated daily digest. Please do not reply to this email.</p>\<newline>'' @
     ''                    </div>\<newline>'' @
     ''                </div>\<newline>'' @
     ''            </body>\<newline>'' @
     ''        </html>\<newline>'' @
     ''        ''\<close>

text \<open>Lines 168--246 of \<^verbatim>\<open>generate_html_digest\<close>, from the html that line 166 has built.\<close>

definition digest_sections ::
  "(json \<Rightarrow> string) \<Rightarrow> world \<Rightarrow> generator \<Rightarrow> string \<Rightarrow> (py_error + string) \<times> line list" where
  "digest_sections other w g html =
     (case news_loop other w g news_sections html [] of
        (Inl e, out) \<Rightarrow> (Inl e, out)
      | (Inr html1, out1) \<Rightarrow>
          (case fetch_nba_scores w of
             (nba_data, printed) \<Rightarrow>
               (case soccer_loop other w soccer_leagues
                       ((if games nba_data \<noteq> []
                         then nba_games_html other (games nba_data) (html1 @ nba_heading)
                         else html1 @ nba_heading @ no_games) @ soccer_heading)
                       (out1 @ printed) of
                  (html2, out2) \<Rightarrow> (Inr (html2 @ html_footer), out2))))"

definition generate_html_digest ::
  "(json \<Rightarrow> string) \<Rightarrow> world \<Rightarrow> generator \<Rightarrow> (py_error + string) \<times> line list" where
  "generate_html_digest other w g =
     (case py_format html_template [now_long w] of
        Inl e \<Rightarrow> (Inl e, [])
      | Inr html \<Rightarrow> digest_sections other w g html)"

subsection \<open>send_email and main\<close>

text \<open>
  Connecting, logging in and sending are one answer of the mail server: \<open>None\<close> when all
  three succeed, the exception otherwise. \<^verbatim>\<open>send_email\<close> prints and re-raises it.
\<close>

definition send_email :: "world \<Rightarrow> generator \<Rightarrow> string \<Rightarrow> (py_error + unit) \<times> line list \<times> email list" where
  "send_email w g html_content =
     (let msg = \<lparr> subject = news_symbol @ '' Daily News Digest - '' @ now_long w,
                  sender = sender_email g,
                  recipient = recipient_email g,
                  html_part = html_content \<rparr>
      in case smtp w msg of
           None \<Rightarrow>
             (Inr (),
              [Line (''Email sent successfully to '' @
                     (case recipient_email g of None \<Rightarrow> ''None'' | Some r \<Rightarrow> r))],
              [msg])
         | Some e \<Rightarrow> (Inl e, [ErrLine ''Error sending email: '' e], []))"

text \<open>
  A run of \<^verbatim>\<open>main\<close>: the exit status (\<^verbatim>\<open>exit(1)\<close> in the handler, 0 when \<^verbatim>\<open>main\<close>
  returns), what was printed, and the messages the mail server accepted.
\<close>

record run =
  exit_code :: int
  stdout :: "line list"
  delivered :: "email list"

definition main :: "(json \<Rightarrow> string) \<Rightarrow> world \<Rightarrow> run" where
  "main other w =
     (case init w of
        Inl e \<Rightarrow> \<lparr> exit_code = 1, stdout = [ErrLine ''Fatal error: '' e], delivered = [] \<rparr>
      | Inr generator \<Rightarrow>
          (case generate_html_digest other w generator of
             (Inl e, out) \<Rightarrow>
               \<lparr> exit_code = 1,
                 stdout = [Line ''Generating daily news digest...''] @ out @
                          [ErrLine ''Fatal error: '' e],
                 delivered = [] \<rparr>
           | (Inr html_digest, out) \<Rightarrow>
               (case send_email w generator html_digest of
                  (Inl e, out', sent) \<Rightarrow>
                    \<lparr> exit_code = 1,
                      stdout = [Line ''Generating daily news digest...''] @ out @
                               [Line ''Sending email...''] @ out' @ [ErrLine ''Fatal error: '' e],
                      delivered = sent \<rparr>
                | (Inr u, out', sent) \<Rightarrow>
                    \<lparr> exit_code = 0,
                      stdout = [Line ''Generating daily news digest...''] @ out @
                               [Line ''Sending email...''] @ out' @
                               [Line ''Daily digest completed successfully!''],
                      delivered = sent \<rparr>)))"

section \<open>Notions used to state the properties\<close>



text \<open>An article of the payload from which a record can be built: an object whose
  \<^verbatim>\<open>source\<close> is absent or an object.\<close>

fun well_formed_article :: "json \<Rightarrow> bool" where
  "well_formed_article (JObj kvs) =
     (case map_of kvs ''source'' of
        None \<Rightarrow> True
      | Some (JObj s) \<Rightarrow> True
      | Some v \<Rightarrow> False)"
| "well_formed_article v = False"

text \<open>An event on which the loop body raises nothing: it is skipped or gives a record.\<close>

definition event_ok :: "json \<Rightarrow> bool" where
  "event_ok event = (case event_game event of Inl e \<Rightarrow> False | Inr x \<Rightarrow> True)"

text \<open>The world in which one request is answered by \<open>r\<close> and all else is as in \<open>w\<close>.\<close>

definition answer :: "world \<Rightarrow> string \<Rightarrow> (string \<times> json) list \<Rightarrow> http_outcome \<Rightarrow> world" where
  "answer w u params r = w \<lparr> http := (http w) (u := (http w u) (params := r)) \<rparr>"

section \<open>The two phases of the specification\<close>

text \<open>
  The specification describes digest generation as an aggregation phase that runs every
  fetch and builds a document, followed by a renderer that is a function of the document
  alone and gives an artifact for every document. These definitions follow that
  description, to be compared with \<^const>\<open>digest_sections\<close>, which follows the script.
\<close>

record digest =
  generated_at :: string
  news_part :: "(string \<times> article list) list"
  nba_part :: "game list"
  soccer_part :: "(string \<times> game list) list"

fun aggregate_news ::
  "world \<Rightarrow> generator \<Rightarrow> (string \<times> string \<times> int) list \<Rightarrow>
     (string \<times> article list) list \<times> line list" where
  "aggregate_news w g [] = ([], [])"
| "aggregate_news w g ((label, query, count) # rest) =
     (case fetch_news w g query count of
        (items, printed) \<Rightarrow>
          (case aggregate_news w g rest of
             (sections, out) \<Rightarrow> ((label, items) # sections, printed @ out)))"

fun aggregate_soccer ::
  "world \<Rightarrow> (string \<times> string) list \<Rightarrow> (string \<times> game list) list \<times> line list" where
  "aggregate_soccer w [] = ([], [])"
| "aggregate_soccer w ((label, league) # rest) =
     (case fetch_soccer_scores w league of
        (items, printed) \<Rightarrow>
          (case aggregate_soccer w rest of
             (sections, out) \<Rightarrow> ((label, items) # sections, printed @ out)))"

definition spec_aggregate :: "world \<Rightarrow> generator \<Rightarrow> digest \<times> line list" where
  "spec_aggregate w g =
     (case aggregate_news w g news_sections of
        (ns, out1) \<Rightarrow>
          (case fetch_nba_scores w of
             (nba_data, out2) \<Rightarrow>
               (case aggregate_soccer w soccer_leagues of
                  (ss, out3) \<Rightarrow>
                    (\<lparr> generated_at = now_long w, news_part = ns, nba_part = games nba_data,
                       soccer_part = ss \<rparr>,
                     out1 @ out2 @ out3))))"




















section \<open>Example inputs\<close>

definition example_generator :: generator where
  "example_generator =
     \<lparr> news_api_key = Some ''key'', sports_api_key = [], sender_email = Some ''me@example.org'',
       sender_password = Some ''secret'', recipient_email = Some ''you@example.org'' \<rparr>"

text \<open>Every setting present, every request answered with the same payload, mail accepted.\<close>

definition payload_world :: "json \<Rightarrow> world" where
  "payload_world p =
     \<lparr> environ = (\<lambda>k. Some ''set''), http = (\<lambda>u params. Payload p),
       now_long = ''Monday, January 01, 2024'', now_iso = ''2024-01-01'',
       smtp = (\<lambda>m. None) \<rparr>"

text \<open>Every setting present, no provider reachable, mail accepted.\<close>

definition offline_world :: world where
  "offline_world =
     \<lparr> environ = (\<lambda>k. Some ''set''), http = (\<lambda>u params. ConnectionFailed),
       now_long = ''Monday, January 01, 2024'', now_iso = ''2024-01-01'',
       smtp = (\<lambda>m. None) \<rparr>"

definition competitor :: "string \<Rightarrow> string \<Rightarrow> json" where
  "competitor name sc = JObj [(''team'', JObj [(''displayName'', JStr name)]), (''score'', JStr sc)]"

definition event_with :: "json list \<Rightarrow> json" where
  "event_with cs =
     JObj [(''competitions'',
            JArr [JObj [(''competitors'', JArr cs),
                        (''status'', JObj [(''type'', JObj [(''description'', JStr ''Full Time'')])])]])]"

definition derby :: json where
  "derby = event_with [competitor ''Arsenal'' ''2'', competitor ''Chelsea'' ''1'']"

definition walkover :: json where
  "walkover = event_with [competitor ''Arsenal'' ''0'']"

definition derby_game :: game where
  "derby_game = \<lparr> home = JStr ''Arsenal'', away = JStr ''Chelsea'', home_score = JStr ''2'',
                   away_score = JStr ''1'', status = JStr ''Full Time'' \<rparr>"


text \<open>Stands for \<^verbatim>\<open>str()\<close> of values that are not strs, where an example has to fix it.\<close>

definition example_str :: "json \<Rightarrow> string" where
  "example_str v = ''?''"

definition null_description_payload :: json where
  "null_description_payload =
     JObj [(''articles'',
            JArr [JObj [(''title'', JStr ''Budget vote''), (''description'', JNull),
                        (''url'', JStr ''https://example.org/a'')]])]"

definition null_description_article :: article where
  "null_description_article =
     \<lparr> title = JStr ''Budget vote'', description = JNull, url = JStr ''https://example.org/a'',
       source = JStr [], image_field = JStr [], publishedAt = JStr [] \<rparr>"

definition titled :: "string \<Rightarrow> article" where
  "titled t = \<lparr> title = JStr t, description = JStr [], url = JStr [], source = JStr [],
                image_field = JStr [], publishedAt = JStr [] \<rparr>"

definition short_article :: article where
  "short_article = (titled ''Note'') \<lparr> description := JStr ''Hi'' \<rparr>"

definition long_article :: article where
  "long_article = (titled ''Essay'') \<lparr> description := JStr (replicate 201 (CHR ''a'')) \<rparr>"

text \<open>Ten articles titled 0 to 9, and the two events above, in one payload.\<close>

definition mixed_payload :: json where
  "mixed_payload =
     JObj [(''articles'', JArr (map (\<lambda>c. JObj [(''title'', JStr [c])]) ''0123456789'')),
           (''events'', JArr [derby, walkover])]"

definition six_events :: json where
  "six_events = JObj [(''events'', JArr (replicate 6 derby))]"

text \<open>Only the request of the first news section is answered, with the payload above.\<close>

definition first_only_world :: world where
  "first_only_world =
     \<lparr> environ = (\<lambda>k. Some ''set''),
       http = (\<lambda>u params. if params = news_params example_generator ''US news'' 5
                            then Payload null_description_payload else ConnectionFailed),
       now_long = ''Monday, January 01, 2024'', now_iso = ''2024-01-01'',
       smtp = (\<lambda>m. None) \<rparr>"






section \<open>Basic facts\<close>

lemma and_then_simps [simp]:
  "and_then (Inl e) f = Inl e" "and_then (Inr v) f = f v"
  by (simp_all add: and_then_def)

lemma and_then_Inr_iff:
  "and_then r f = Inr y \<longleftrightarrow> (\<exists>v. r = Inr v \<and> f v = Inr y)"
  by (cases r) simp_all


lemma get_json_offline: "get_json offline_world u p = Inl RequestException"
  by (simp add: get_json_def offline_world_def)

lemma get_json_payload: "get_json (payload_world p) u params = Inr p"
  by (simp add: get_json_def payload_world_def)

lemma articles_loop_Inr:
  "articles_loop items acc = Inr rs \<Longrightarrow> map Inr rs = map Inr acc @ map article_record items"
  by (induction items arbitrary: acc) (auto split: sum.splits)

lemma games_loop_Inr:
  "games_loop events acc = Inr gs \<Longrightarrow>
     map (\<lambda>r. Inr (Some r)) gs =
       map (\<lambda>r. Inr (Some r)) acc @ filter (\<lambda>x. x \<noteq> Inr None) (map event_game events)"
  by (induction events arbitrary: acc) (auto split: sum.splits option.splits)

lemma games_loop_length:
  "games_loop events acc = Inr gs \<Longrightarrow> length gs \<le> length acc + length events"
  by (induction events arbitrary: acc) (fastforce split: sum.splits option.splits)+

section \<open>The adapters catch what their fetch raises\<close>

lemma get_json_no_payload:
  "\<forall>p. http w u params \<noteq> Payload p \<Longrightarrow> \<exists>e. get_json w u params = Inl e"
  by (cases "http w u params") (simp_all add: get_json_def)

text \<open>
  C3. Each of the four adapters returns a value for every world and every argument: either
  records and nothing printed, or no record and one printed line. When the body of its
  \<^verbatim>\<open>try\<close> raises \<open>e\<close> (a transport error, a bad status, an undecodable body or a payload of
  an unexpected shape), the adapter returns the empty list of records (for the NBA and NFL
  fetchers, the dict whose \<open>games\<close> is empty) and prints one line naming \<open>e\<close>; this is what
  happens whenever the request does not come back with a decoded payload.
\<close>

theorem adapters_never_raise:
  "(fetch_news_try w g query n = Inl e \<longrightarrow>
      fetch_news w g query n =
        ([], [ErrLine (''Error fetching news for '' @ [CHR 0x27] @ query @ [CHR 0x27] @ '': '') e]))
   \<and> (scoreboard_try w ''basketball/nba'' = Inl e \<longrightarrow>
      games (fst (fetch_nba_scores w)) = [] \<and>
      snd (fetch_nba_scores w) = [ErrLine ''Error fetching NBA scores: '' e])
   \<and> (scoreboard_try w ''football/nfl'' = Inl e \<longrightarrow>
      games (fst (fetch_nfl_scores w)) = [] \<and>
      snd (fetch_nfl_scores w) = [ErrLine ''Error fetching NFL scores: '' e])
   \<and> (map_of league_map league = Some league_id \<longrightarrow> soccer_try w league_id = Inl e \<longrightarrow>
      fetch_soccer_scores w league =
        ([], [ErrLine (''Error fetching '' @ league @ '' scores: '') e]))
   \<and> ((\<forall>p. http w news_url (news_params g query n) \<noteq> Payload p) \<longrightarrow>
      (\<exists>e'. fetch_news_try w g query n = Inl e'))
   \<and> ((\<forall>p. http w (scoreboard_url sport) [] \<noteq> Payload p) \<longrightarrow>
      (\<exists>e'. scoreboard_try w sport = Inl e') \<and> (\<exists>e'. soccer_try w sport = Inl e'))
   \<and> ((\<exists>rs. fetch_news w g query n = (rs, [])) \<or>
       (\<exists>e'. fetch_news w g query n =
          ([], [ErrLine (''Error fetching news for '' @ [CHR 0x27] @ query @ [CHR 0x27] @ '': '') e'])))
   \<and> ((\<exists>gs. fetch_soccer_scores w league = (gs, [])) \<or>
       (\<exists>e'. fetch_soccer_scores w league =
          ([], [ErrLine (''Error fetching '' @ league @ '' scores: '') e'])))
   \<and> (snd (fetch_nba_scores w) = [] \<or>
       (\<exists>e'. games (fst (fetch_nba_scores w)) = [] \<and>
          snd (fetch_nba_scores w) = [ErrLine ''Error fetching NBA scores: '' e']))
   \<and> (snd (fetch_nfl_scores w) = [] \<or>
       (\<exists>e'. games (fst (fetch_nfl_scores w)) = [] \<and>
          snd (fetch_nfl_scores w) = [ErrLine ''Error fetching NFL scores: '' e']))"
proof -
  have handlers:
    "fetch_news_try w g query n = Inl e \<longrightarrow>
      fetch_news w g query n =
        ([], [ErrLine (''Error fetching news for '' @ [CHR 0x27] @ query @ [CHR 0x27] @ '': '') e])"
    "scoreboard_try w ''basketball/nba'' = Inl e \<longrightarrow>
      games (fst (fetch_nba_scores w)) = [] \<and>
      snd (fetch_nba_scores w) = [ErrLine ''Error fetching NBA scores: '' e]"
    "scoreboard_try w ''football/nfl'' = Inl e \<longrightarrow>
      games (fst (fetch_nfl_scores w)) = [] \<and>
      snd (fetch_nfl_scores w) = [ErrLine ''Error fetching NFL scores: '' e]"
    "map_of league_map league = Some league_id \<longrightarrow> soccer_try w league_id = Inl e \<longrightarrow>
      fetch_soccer_scores w league =
        ([], [ErrLine (''Error fetching '' @ league @ '' scores: '') e])"
    by (auto simp: fetch_news_def fetch_nba_scores_def fetch_nfl_scores_def
          fetch_soccer_scores_def league_map_def split: if_splits)
  have transport:
    "(\<forall>p. http w news_url (news_params g query n) \<noteq> Payload p) \<longrightarrow>
      (\<exists>e'. fetch_news_try w g query n = Inl e')"
    "(\<forall>p. http w (scoreboard_url sport) [] \<noteq> Payload p) \<longrightarrow>
      (\<exists>e'. scoreboard_try w sport = Inl e') \<and> (\<exists>e'. soccer_try w sport = Inl e')"
    using get_json_no_payload [of w news_url "news_params g query n"]
      get_json_no_payload [of w "scoreboard_url sport" "[]"]
    by (auto simp: fetch_news_try_def scoreboard_try_def soccer_try_def)
  have total:
    "(\<exists>rs. fetch_news w g query n = (rs, [])) \<or>
       (\<exists>e'. fetch_news w g query n =
          ([], [ErrLine (''Error fetching news for '' @ [CHR 0x27] @ query @ [CHR 0x27] @ '': '') e']))"
    "(\<exists>gs. fetch_soccer_scores w league = (gs, [])) \<or>
       (\<exists>e'. fetch_soccer_scores w league =
          ([], [ErrLine (''Error fetching '' @ league @ '' scores: '') e']))"
    "snd (fetch_nba_scores w) = [] \<or>
       (\<exists>e'. games (fst (fetch_nba_scores w)) = [] \<and>
          snd (fetch_nba_scores w) = [ErrLine ''Error fetching NBA scores: '' e'])"
    "snd (fetch_nfl_scores w) = [] \<or>
       (\<exists>e'. games (fst (fetch_nfl_scores w)) = [] \<and>
          snd (fetch_nfl_scores w) = [ErrLine ''Error fetching NFL scores: '' e'])"
    by (auto simp: fetch_news_def fetch_nba_scores_def fetch_nfl_scores_def
          fetch_soccer_scores_def Let_def split: sum.splits)
  show ?thesis
    using handlers transport total by blast
qed

theorem adapters_never_raise_witness:
  "fetch_news_try offline_world example_generator ''US news'' 5 = Inl RequestException
   \<and> fetch_news offline_world example_generator ''US news'' 5 =
        ([], [ErrLine ''Error fetching news for 'US news': '' RequestException])
   \<and> scoreboard_try offline_world ''basketball/nba'' = Inl RequestException
   \<and> games (fst (fetch_nba_scores offline_world)) = []
   \<and> snd (fetch_nba_scores offline_world) = [ErrLine ''Error fetching NBA scores: '' RequestException]
   \<and> scoreboard_try offline_world ''football/nfl'' = Inl RequestException
   \<and> games (fst (fetch_nfl_scores offline_world)) = []
   \<and> snd (fetch_nfl_scores offline_world) = [ErrLine ''Error fetching NFL scores: '' RequestException]
   \<and> map_of league_map ''fa-cup'' = Some ''soccer/eng.fa''
   \<and> soccer_try offline_world ''soccer/eng.fa'' = Inl RequestException
   \<and> fetch_soccer_scores offline_world ''fa-cup'' =
        ([], [ErrLine ''Error fetching fa-cup scores: '' RequestException])
   \<and> http offline_world news_url (news_params example_generator ''US news'' 5) = ConnectionFailed
   \<and> http offline_world (scoreboard_url ''soccer/eng.fa'') [] = ConnectionFailed"
proof -
  have a: "fetch_news_try offline_world example_generator ''US news'' 5 = Inl RequestException"
    by (simp add: fetch_news_try_def get_json_offline)
  have b: "scoreboard_try offline_world ''basketball/nba'' = Inl RequestException"
    by (simp add: scoreboard_try_def get_json_offline)
  have c: "scoreboard_try offline_world ''football/nfl'' = Inl RequestException"
    by (simp add: scoreboard_try_def get_json_offline)
  have d: "map_of league_map ''fa-cup'' = Some ''soccer/eng.fa''"
    by (simp add: league_map_def)
  have e: "soccer_try offline_world ''soccer/eng.fa'' = Inl RequestException"
    by (simp add: soccer_try_def get_json_offline)
  have f: "http offline_world u ps = ConnectionFailed" for u ps
    by (simp add: offline_world_def)
  show ?thesis
    using adapters_never_raise [of offline_world example_generator "''US news''" 5
        RequestException "''fa-cup''" "''soccer/eng.fa''" "''soccer/eng.fa''"] a b c d e f
    by simp
qed

section \<open>Which events become game records\<close>

lemma event_game_derby: "event_game derby = Inr (Some derby_game)"
  by (simp add: event_game_def derby_def derby_game_def event_with_def competitor_def
        competition0_def)

lemma event_game_walkover: "event_game walkover = Inr None"
  by (simp add: event_game_def walkover_def event_with_def competitor_def competition0_def)







lemma games_loop_ok:
  "list_all event_ok events \<Longrightarrow> \<exists>gs. games_loop events acc = Inr gs"
  by (induction events arbitrary: acc) (auto simp: event_ok_def split: sum.splits option.splits)

lemma games_loop_raises:
  "\<not> list_all event_ok events \<Longrightarrow> \<exists>e. games_loop events acc = Inl e"
  by (induction events arbitrary: acc) (auto simp: event_ok_def split: sum.splits option.splits)

lemma games_loop_records:
  assumes "list_all event_ok events"
  shows "\<exists>gs. games_loop events [] = Inr gs \<and>
           map (\<lambda>r. Inr (Some r)) gs = filter (\<lambda>x. x \<noteq> Inr None) (map event_game events)"
proof -
  from games_loop_ok [OF assms] obtain gs where gs: "games_loop events [] = Inr gs"
    by blast
  from games_loop_Inr [OF gs] gs show ?thesis
    by simp
qed

lemma scoreboard_try_records:
  assumes "get_json w (scoreboard_url sport) [] = Inr data"
    and "py_get data ''events'' (JArr []) = Inr (JArr events)"
  shows "list_all event_ok events \<Longrightarrow>
           \<exists>gs. scoreboard_try w sport = Inr gs \<and>
             map (\<lambda>r. Inr (Some r)) gs = filter (\<lambda>x. x \<noteq> Inr None) (map event_game events)"
    and "\<not> list_all event_ok events \<Longrightarrow> \<exists>e. scoreboard_try w sport = Inl e"
  using assms games_loop_records [of events] games_loop_raises [of events "[]"]
  by (simp_all add: scoreboard_try_def)

lemma soccer_try_records:
  assumes "get_json w (scoreboard_url league_id) [] = Inr data"
    and "py_get data ''events'' (JArr []) = Inr (JArr events)"
  shows "list_all event_ok (take 5 events) \<Longrightarrow>
           \<exists>gs. soccer_try w league_id = Inr gs \<and>
             map (\<lambda>r. Inr (Some r)) gs =
               filter (\<lambda>x. x \<noteq> Inr None) (map event_game (take 5 events))"
    and "\<not> list_all event_ok (take 5 events) \<Longrightarrow> \<exists>e. soccer_try w league_id = Inl e"
  using assms games_loop_records [of "take 5 events"] games_loop_raises [of "take 5 events" "[]"]
  by (simp_all add: soccer_try_def slice_to_def)

lemma fetch_nba_scores_records:
  assumes "get_json w (scoreboard_url ''basketball/nba'') [] = Inr data"
    and "py_get data ''events'' (JArr []) = Inr (JArr events)"
  shows "list_all event_ok events \<Longrightarrow>
           map (\<lambda>r. Inr (Some r)) (games (fst (fetch_nba_scores w))) =
             filter (\<lambda>x. x \<noteq> Inr None) (map event_game events) \<and>
           snd (fetch_nba_scores w) = []"
    and "\<not> list_all event_ok events \<Longrightarrow>
           games (fst (fetch_nba_scores w)) = [] \<and>
           (\<exists>e. snd (fetch_nba_scores w) = [ErrLine ''Error fetching NBA scores: '' e])"
  using scoreboard_try_records [OF assms]
  by (auto simp: fetch_nba_scores_def)

lemma fetch_nfl_scores_records:
  assumes "get_json w (scoreboard_url ''football/nfl'') [] = Inr data"
    and "py_get data ''events'' (JArr []) = Inr (JArr events)"
  shows "list_all event_ok events \<Longrightarrow>
           map (\<lambda>r. Inr (Some r)) (games (fst (fetch_nfl_scores w))) =
             filter (\<lambda>x. x \<noteq> Inr None) (map event_game events) \<and>
           snd (fetch_nfl_scores w) = []"
    and "\<not> list_all event_ok events \<Longrightarrow>
           games (fst (fetch_nfl_scores w)) = [] \<and>
           (\<exists>e. snd (fetch_nfl_scores w) = [ErrLine ''Error fetching NFL scores: '' e])"
  using scoreboard_try_records [OF assms]
  by (auto simp: fetch_nfl_scores_def)

lemma fetch_soccer_scores_records:
  assumes "map_of league_map league = Some league_id"
    and "get_json w (scoreboard_url league_id) [] = Inr data"
    and "py_get data ''events'' (JArr []) = Inr (JArr events)"
  shows "list_all event_ok (take 5 events) \<Longrightarrow>
           map (\<lambda>r. Inr (Some r)) (fst (fetch_soccer_scores w league)) =
             filter (\<lambda>x. x \<noteq> Inr None) (map event_game (take 5 events)) \<and>
           snd (fetch_soccer_scores w league) = []"
    and "\<not> list_all event_ok (take 5 events) \<Longrightarrow>
           fst (fetch_soccer_scores w league) = [] \<and>
           (\<exists>e. snd (fetch_soccer_scores w league) =
                  [ErrLine (''Error fetching '' @ league @ '' scores: '') e])"
proof -
  have id: "league_id \<noteq> []"
    using assms(1) by (auto simp: league_map_def split: if_splits)
  show "list_all event_ok (take 5 events) \<Longrightarrow>
           map (\<lambda>r. Inr (Some r)) (fst (fetch_soccer_scores w league)) =
             filter (\<lambda>x. x \<noteq> Inr None) (map event_game (take 5 events)) \<and>
           snd (fetch_soccer_scores w league) = []"
    using soccer_try_records(1) [OF assms(2,3)] assms(1) id
    by (auto simp: fetch_soccer_scores_def)
  show "\<not> list_all event_ok (take 5 events) \<Longrightarrow>
           fst (fetch_soccer_scores w league) = [] \<and>
           (\<exists>e. snd (fetch_soccer_scores w league) =
                  [ErrLine (''Error fetching '' @ league @ '' scores: '') e])"
    using soccer_try_records(2) [OF assms(2,3)] assms(1) id
    by (auto simp: fetch_soccer_scores_def)
qed









section \<open>What a record holds when the payload holds null\<close>

lemma article_record_object:
  "article_record (JObj kvs) = Inr r \<Longrightarrow>
     title r = (case map_of kvs ''title'' of None \<Rightarrow> JStr [] | Some v \<Rightarrow> v) \<and>
     description r = (case map_of kvs ''description'' of None \<Rightarrow> JStr [] | Some v \<Rightarrow> v)"
  by (auto simp: article_record_def and_then_Inr_iff)

text \<open>
  C4. The payload \<^verbatim>\<open>{"articles": [{"title": "Budget vote", "description": null, "url":
  "https://example.org/a"}]}\<close>: the record \<^verbatim>\<open>fetch_news\<close> returns keeps \<^verbatim>\<open>None\<close> as its
  description, where an absent key would have given the empty string, and rendering that
  record raises \<^verbatim>\<open>TypeError\<close>.
\<close>

theorem null_description_is_kept:
  "fetch_news (payload_world null_description_payload) example_generator ''US news'' 5 =
     ([null_description_article], [])
   \<and> description null_description_article = JNull
   \<and> render_article other null_description_article = Inl TypeError"
  by (simp add: fetch_news_def fetch_news_try_def get_json_payload null_description_payload_def
        slice_to_def article_record_def null_description_article_def render_article_def
        summary_text_def)

section \<open>The summary of an article\<close>

text \<open>
  C5 as stated fails: a summary of two characters is rendered with the ellipsis after it.
\<close>

theorem short_summary_counterexample:
  "description short_article = JStr ''Hi'' \<and> length ''Hi'' \<le> (200::nat) \<and>
   summary_text example_str short_article \<noteq> Inr ''Hi''"
  by (simp add: short_article_def titled_def summary_text_def slice_to_def)

text \<open>
  C5, amended. For every article whose description is text, the rendered summary is the
  first 200 characters of the description (all of it when it has at most 200) followed by
  the ellipsis, whether or not anything was cut; a longer description contributes exactly
  200 characters. That text is what the article's block holds between the opening and the
  closing tag of its summary element.
\<close>

theorem summary_always_ellipsis:
  assumes "description a = JStr s"
  shows \<open>summary_text other a = Inr (take 200 s @ ''...'')
    \<and> (length s \<le> 200 \<longrightarrow> summary_text other a = Inr (s @ ''...''))
    \<and> (200 < length s \<longrightarrow> length (take 200 s) = 200)
    \<and> (\<exists>pre post. render_article other a =
           Inr (pre @ ''<div class="article-summary">'' @ take 200 s @ ''...'' @ ''</div>'' @ post))\<close>
proof -
  have 1: "summary_text other a = Inr (take 200 s @ ''...'')"
    using assms by (simp add: summary_text_def slice_to_def)
  have 2: "length s \<le> 200 \<longrightarrow> summary_text other a = Inr (s @ ''...'')"
    using 1 by simp
  have 3: "200 < length s \<longrightarrow> length (take 200 s) = 200"
    by simp
  have 4: \<open>\<exists>pre post. render_article other a =
           Inr (pre @ ''<div class="article-summary">'' @ take 200 s @ ''...'' @ ''</div>'' @ post)\<close>
    unfolding render_article_def 1 and_then_simps
    apply (rule exI [where x = \<open>''\<newline>'' @
       ''                    <div class="article">\<newline>'' @
       ''                        <div class="article-title">'' @ py_str other (title a) @ ''</div>\<newline>'' @
       ''                        ''\<close>])
    apply (rule exI [where x = \<open>''\<newline>'' @
       ''                        <div class="article-source">'' @ py_str other (source a) @ ''</div>\<newline>'' @
       ''                        <a href="'' @ py_str other (url a) @
         ''" class="article-link">Read full article '' @ arrow_symbol @ ''</a>\<newline>'' @
       ''                    </div>\<newline>'' @
       ''                    ''\<close>])
    apply simp
    done
  show ?thesis
    using 1 2 3 4 by blast
qed

theorem summary_always_ellipsis_witness:
  "description short_article = JStr ''Hi''
   \<and> summary_text example_str short_article = Inr ''Hi...''
   \<and> description long_article = JStr (replicate 201 (CHR ''a''))
   \<and> 200 < length (replicate 201 (CHR ''a''))
   \<and> summary_text example_str long_article = Inr (replicate 200 (CHR ''a'') @ ''...'')
   \<and> length (take 200 (replicate 201 (CHR ''a''))) = 200"
proof -
  have a: "description short_article = JStr ''Hi''"
    by (simp add: short_article_def titled_def)
  have b: "description long_article = JStr (replicate 201 (CHR ''a''))"
    by (simp add: long_article_def titled_def)
  show ?thesis
    using summary_always_ellipsis [OF a, of example_str]
      summary_always_ellipsis [OF b, of example_str] a b
    by simp
qed

section \<open>How many records an adapter returns\<close>

lemma slice_to_length: "0 \<le> n \<Longrightarrow> length (slice_to xs n) \<le> nat n"
  by (simp add: slice_to_def)

lemma py_slice_iter_length:
  "py_slice_to v n = Inr sl \<Longrightarrow> py_iter sl = Inr items \<Longrightarrow> 0 \<le> n \<Longrightarrow> length items \<le> nat n"
  by (cases v) (auto simp: slice_to_def)

lemma articles_loop_length:
  "articles_loop items acc = Inr rs \<Longrightarrow> length rs = length acc + length items"
  using articles_loop_Inr [of items acc rs] by (metis length_append length_map)

lemma fetch_news_try_length:
  assumes "fetch_news_try w g query n = Inr rs" and "0 \<le> n"
  shows "length rs \<le> nat n"
proof -
  from assms(1) obtain v sl items where
    s: "py_slice_to v n = Inr sl" and i: "py_iter sl = Inr items" and
    l: "articles_loop items [] = Inr rs"
    unfolding fetch_news_try_def by (auto simp: and_then_Inr_iff)
  from articles_loop_length [OF l] py_slice_iter_length [OF s i assms(2)]
  show ?thesis by simp
qed

lemma fetch_news_length: "0 \<le> n \<Longrightarrow> length (fst (fetch_news w g query n)) \<le> nat n"
  by (cases "fetch_news_try w g query n") (simp_all add: fetch_news_def fetch_news_try_length)

lemma soccer_try_length:
  assumes "soccer_try w league_id = Inr gs"
  shows "length gs \<le> 5"
proof -
  from assms obtain v sl events where
    s: "py_slice_to v 5 = Inr sl" and i: "py_iter sl = Inr events" and
    l: "games_loop events [] = Inr gs"
    unfolding soccer_try_def by (auto simp: and_then_Inr_iff)
  from games_loop_length [OF l] py_slice_iter_length [OF s i]
  show ?thesis by simp
qed

lemma fetch_soccer_scores_length: "length (fst (fetch_soccer_scores w league)) \<le> 5"
proof (cases "map_of league_map league")
  case None
  then show ?thesis by (simp add: fetch_soccer_scores_def)
next
  case (Some league_id)
  then show ?thesis
    by (cases "soccer_try w league_id") (simp_all add: fetch_soccer_scores_def soccer_try_length)
qed

lemma games_loop_replicate_derby:
  "games_loop (replicate k derby) acc = Inr (acc @ replicate k derby_game)"
proof (induction k arbitrary: acc)
  case 0
  then show ?case by simp
next
  case (Suc k)
  then show ?case by (simp add: event_game_derby replicate_app_Cons_same)
qed

text \<open>
  C6 as stated fails for the NBA fetcher, which has no cap: a scoreboard of six events
  with two competitors each gives six records, more than the five of the fixture cap.
\<close>

theorem nba_uncapped_counterexample:
  "\<not> length (games (fst (fetch_nba_scores (payload_world six_events)))) \<le> 5"
proof -
  have "scoreboard_try (payload_world six_events) ''basketball/nba'' = Inr (replicate 6 derby_game)"
    by (simp add: scoreboard_try_def get_json_payload six_events_def games_loop_replicate_derby)
  then show ?thesis
    by (simp add: fetch_nba_scores_def)
qed

lemma well_formed_article_iff:
  "well_formed_article a \<longleftrightarrow> (\<exists>r. article_record a = Inr r)"
proof (cases a)
  case (JObj kvs)
  show ?thesis
  proof (cases "map_of kvs ''source''")
    case None
    then show ?thesis using JObj by (simp add: article_record_def)
  next
    case (Some v)
    then show ?thesis using JObj by (cases v) (simp_all add: article_record_def)
  qed
qed (simp_all add: article_record_def)

lemma articles_loop_ok:
  "list_all well_formed_article items \<Longrightarrow> \<exists>rs. articles_loop items acc = Inr rs"
  by (induction items arbitrary: acc) (auto simp: well_formed_article_iff)

lemma fetch_news_exact:
  assumes "get_json w news_url (news_params g query n) = Inr data"
    and "py_get data ''articles'' (JArr []) = Inr (JArr arts)" and "0 \<le> n"
    and "list_all well_formed_article (take (nat n) arts)"
  shows "map Inr (fst (fetch_news w g query n)) = map article_record (take (nat n) arts)"
    and "length (fst (fetch_news w g query n)) = min (nat n) (length arts)"
    and "snd (fetch_news w g query n) = []"
proof -
  from articles_loop_ok [OF assms(4)] obtain rs where
    rs: "articles_loop (take (nat n) arts) [] = Inr rs"
    by blast
  then have body: "fetch_news_try w g query n = Inr rs"
    using assms(1-3) by (simp add: fetch_news_try_def slice_to_def)
  from articles_loop_Inr [OF rs] body
  show 1: "map Inr (fst (fetch_news w g query n)) = map article_record (take (nat n) arts)"
    by (simp add: fetch_news_def)
  from arg_cong [OF 1, of length]
  show "length (fst (fetch_news w g query n)) = min (nat n) (length arts)"
    by (simp add: min.commute)
  from body show "snd (fetch_news w g query n) = []"
    by (simp add: fetch_news_def)
qed

lemma filter_all_length:
  "list_all (\<lambda>x. f x \<noteq> y) xs \<Longrightarrow> length (filter (\<lambda>x. x \<noteq> y) (map f xs)) = length xs"
  by (induction xs) simp_all

lemma records_length:
  assumes "map (\<lambda>r. Inr (Some r)) gs = filter (\<lambda>x. x \<noteq> Inr None) (map event_game events)"
    and "list_all (\<lambda>ev. event_game ev \<noteq> Inr None) events"
  shows "length gs = length events"
proof -
  have "length gs = length (map (\<lambda>r. Inr (Some r) :: py_error + game option) gs)"
    by simp
  also have "\<dots> = length (filter (\<lambda>x. x \<noteq> Inr None) (map event_game events))"
    using assms(1) by (rule arg_cong)
  also have "\<dots> = length events"
    using assms(2) by (rule filter_all_length)
  finally show ?thesis .
qed

text \<open>
  C6, amended. \<^verbatim>\<open>fetch_news\<close> called with a cap \<open>n \<ge> 0\<close> returns at most \<open>n\<close> records, and
  \<^verbatim>\<open>fetch_soccer_scores\<close> at most five. When the payload lists its articles and the first
  \<open>n\<close> of them are well formed, \<^verbatim>\<open>fetch_news\<close> returns exactly their records, one for each, in
  the provider's order, and prints nothing: three records for a cap of 3 against ten
  articles. When the payload lists its events and the loop body raises on none of the
  first five, \<^verbatim>\<open>fetch_soccer_scores\<close> returns exactly the records of those of the first five
  that were not skipped, in the provider's order. The NBA and NFL fetchers have no cap:
  under the same condition on all the events they return the records of all events that
  were not skipped, as many as there are events when none is skipped.
\<close>

theorem result_caps:
  "(0 \<le> n \<longrightarrow> length (fst (fetch_news w g query n)) \<le> nat n)
   \<and> (get_json w news_url (news_params g query n) = Inr data \<and>
      py_get data ''articles'' (JArr []) = Inr (JArr arts) \<and> 0 \<le> n \<and>
      list_all well_formed_article (take (nat n) arts) \<longrightarrow>
        map Inr (fst (fetch_news w g query n)) = map article_record (take (nat n) arts) \<and>
        length (fst (fetch_news w g query n)) = min (nat n) (length arts) \<and>
        snd (fetch_news w g query n) = [])
   \<and> length (fst (fetch_soccer_scores w league)) \<le> 5
   \<and> (map_of league_map league = Some league_id \<and>
      get_json w (scoreboard_url league_id) [] = Inr sdata \<and>
      py_get sdata ''events'' (JArr []) = Inr (JArr sevents) \<and>
      list_all event_ok (take 5 sevents) \<longrightarrow>
        map (\<lambda>r. Inr (Some r)) (fst (fetch_soccer_scores w league)) =
          filter (\<lambda>x. x \<noteq> Inr None) (map event_game (take 5 sevents)))
   \<and> (get_json w (scoreboard_url ''basketball/nba'') [] = Inr bdata \<and>
      py_get bdata ''events'' (JArr []) = Inr (JArr bevents) \<and> list_all event_ok bevents \<longrightarrow>
        map (\<lambda>r. Inr (Some r)) (games (fst (fetch_nba_scores w))) =
          filter (\<lambda>x. x \<noteq> Inr None) (map event_game bevents) \<and>
        (list_all (\<lambda>ev. event_game ev \<noteq> Inr None) bevents \<longrightarrow>
           length (games (fst (fetch_nba_scores w))) = length bevents))
   \<and> (get_json w (scoreboard_url ''football/nfl'') [] = Inr fdata \<and>
      py_get fdata ''events'' (JArr []) = Inr (JArr fevents) \<and> list_all event_ok fevents \<longrightarrow>
        map (\<lambda>r. Inr (Some r)) (games (fst (fetch_nfl_scores w))) =
          filter (\<lambda>x. x \<noteq> Inr None) (map event_game fevents) \<and>
        (list_all (\<lambda>ev. event_game ev \<noteq> Inr None) fevents \<longrightarrow>
           length (games (fst (fetch_nfl_scores w))) = length fevents))"
proof -
  have cap: "0 \<le> n \<longrightarrow> length (fst (fetch_news w g query n)) \<le> nat n"
    using fetch_news_length [of n w g query] by blast
  have news: "get_json w news_url (news_params g query n) = Inr data \<and>
      py_get data ''articles'' (JArr []) = Inr (JArr arts) \<and> 0 \<le> n \<and>
      list_all well_formed_article (take (nat n) arts) \<longrightarrow>
        map Inr (fst (fetch_news w g query n)) = map article_record (take (nat n) arts) \<and>
        length (fst (fetch_news w g query n)) = min (nat n) (length arts) \<and>
        snd (fetch_news w g query n) = []"
    using fetch_news_exact [of w g query n data arts] by blast
  have five: "length (fst (fetch_soccer_scores w league)) \<le> 5"
    by (rule fetch_soccer_scores_length)
  have soccer: "map_of league_map league = Some league_id \<and>
      get_json w (scoreboard_url league_id) [] = Inr sdata \<and>
      py_get sdata ''events'' (JArr []) = Inr (JArr sevents) \<and>
      list_all event_ok (take 5 sevents) \<longrightarrow>
        map (\<lambda>r. Inr (Some r)) (fst (fetch_soccer_scores w league)) =
          filter (\<lambda>x. x \<noteq> Inr None) (map event_game (take 5 sevents))"
    using fetch_soccer_scores_records(1) [of league league_id w sdata sevents] by blast
  have nba: "get_json w (scoreboard_url ''basketball/nba'') [] = Inr bdata \<and>
      py_get bdata ''events'' (JArr []) = Inr (JArr bevents) \<and> list_all event_ok bevents \<longrightarrow>
        map (\<lambda>r. Inr (Some r)) (games (fst (fetch_nba_scores w))) =
          filter (\<lambda>x. x \<noteq> Inr None) (map event_game bevents) \<and>
        (list_all (\<lambda>ev. event_game ev \<noteq> Inr None) bevents \<longrightarrow>
           length (games (fst (fetch_nba_scores w))) = length bevents)"
  proof (intro impI, elim conjE)
    assume a: "get_json w (scoreboard_url ''basketball/nba'') [] = Inr bdata"
      "py_get bdata ''events'' (JArr []) = Inr (JArr bevents)" "list_all event_ok bevents"
    from fetch_nba_scores_records(1) [OF a]
    have m: "map (\<lambda>r. Inr (Some r)) (games (fst (fetch_nba_scores w))) =
          filter (\<lambda>x. x \<noteq> Inr None) (map event_game bevents)"
      by blast
    from m records_length [OF m]
    show "map (\<lambda>r. Inr (Some r)) (games (fst (fetch_nba_scores w))) =
          filter (\<lambda>x. x \<noteq> Inr None) (map event_game bevents) \<and>
        (list_all (\<lambda>ev. event_game ev \<noteq> Inr None) bevents \<longrightarrow>
           length (games (fst (fetch_nba_scores w))) = length bevents)"
      by blast
  qed
  have nfl: "get_json w (scoreboard_url ''football/nfl'') [] = Inr fdata \<and>
      py_get fdata ''events'' (JArr []) = Inr (JArr fevents) \<and> list_all event_ok fevents \<longrightarrow>
        map (\<lambda>r. Inr (Some r)) (games (fst (fetch_nfl_scores w))) =
          filter (\<lambda>x. x \<noteq> Inr None) (map event_game fevents) \<and>
        (list_all (\<lambda>ev. event_game ev \<noteq> Inr None) fevents \<longrightarrow>
           length (games (fst (fetch_nfl_scores w))) = length fevents)"
  proof (intro impI, elim conjE)
    assume a: "get_json w (scoreboard_url ''football/nfl'') [] = Inr fdata"
      "py_get fdata ''events'' (JArr []) = Inr (JArr fevents)" "list_all event_ok fevents"
    from fetch_nfl_scores_records(1) [OF a]
    have m: "map (\<lambda>r. Inr (Some r)) (games (fst (fetch_nfl_scores w))) =
          filter (\<lambda>x. x \<noteq> Inr None) (map event_game fevents)"
      by blast
    from m records_length [OF m]
    show "map (\<lambda>r. Inr (Some r)) (games (fst (fetch_nfl_scores w))) =
          filter (\<lambda>x. x \<noteq> Inr None) (map event_game fevents) \<and>
        (list_all (\<lambda>ev. event_game ev \<noteq> Inr None) fevents \<longrightarrow>
           length (games (fst (fetch_nfl_scores w))) = length fevents)"
      by blast
  qed
  show ?thesis
    by (intro conjI; fact)
qed

lemma article_record_titled: "article_record (JObj [(''title'', JStr t)]) = Inr (titled t)"
  by (simp add: article_record_def titled_def)

lemma fetch_news_three_of_ten:
  "fetch_news (payload_world mixed_payload) example_generator ''India news'' 3 =
     ([titled ''0'', titled ''1'', titled ''2''], [])"
  by (simp add: fetch_news_def fetch_news_try_def get_json_payload mixed_payload_def slice_to_def
        article_record_titled)

lemma soccer_try_mixed: "soccer_try (payload_world mixed_payload) league_id = Inr [derby_game]"
  by (simp add: soccer_try_def get_json_payload mixed_payload_def slice_to_def
        event_game_derby event_game_walkover)

lemma scoreboard_try_mixed: "scoreboard_try (payload_world mixed_payload) sport = Inr [derby_game]"
  by (simp add: scoreboard_try_def get_json_payload mixed_payload_def
        event_game_derby event_game_walkover)

lemma scoreboard_try_six: "scoreboard_try (payload_world six_events) sport = Inr (replicate 6 derby_game)"
  by (simp add: scoreboard_try_def get_json_payload six_events_def games_loop_replicate_derby)

theorem result_caps_witness:
  "(0::int) \<le> 3
   \<and> get_json (payload_world mixed_payload) news_url (news_params example_generator ''India news'' 3) =
       Inr mixed_payload
   \<and> py_get mixed_payload ''articles'' (JArr []) =
       Inr (JArr (map (\<lambda>c. JObj [(''title'', JStr [c])]) ''0123456789''))
   \<and> length (map (\<lambda>c. JObj [(''title'', JStr [c])]) ''0123456789'') = 10
   \<and> list_all well_formed_article (take (nat 3) (map (\<lambda>c. JObj [(''title'', JStr [c])]) ''0123456789''))
   \<and> fetch_news (payload_world mixed_payload) example_generator ''India news'' 3 =
       ([titled ''0'', titled ''1'', titled ''2''], [])
   \<and> length (fst (fetch_news (payload_world mixed_payload) example_generator ''India news'' 3)) = 3
   \<and> map_of league_map ''premier-league'' = Some ''soccer/eng.1''
   \<and> py_get mixed_payload ''events'' (JArr []) = Inr (JArr [derby, walkover])
   \<and> list_all event_ok [derby, walkover]
   \<and> fst (fetch_soccer_scores (payload_world mixed_payload) ''premier-league'') = [derby_game]
   \<and> games (fst (fetch_nba_scores (payload_world mixed_payload))) = [derby_game]
   \<and> games (fst (fetch_nfl_scores (payload_world mixed_payload))) = [derby_game]
   \<and> py_get six_events ''events'' (JArr []) = Inr (JArr (replicate 6 derby))
   \<and> list_all event_ok (replicate 6 derby)
   \<and> list_all (\<lambda>ev. event_game ev \<noteq> Inr None) (replicate 6 derby)
   \<and> length (games (fst (fetch_nba_scores (payload_world six_events)))) = 6
   \<and> length (games (fst (fetch_nfl_scores (payload_world six_events)))) = 6
   \<and> length (fst (fetch_soccer_scores (payload_world six_events) ''premier-league'')) \<le> 5"
proof -
  have a: "py_get mixed_payload ''articles'' (JArr []) =
       Inr (JArr (map (\<lambda>c. JObj [(''title'', JStr [c])]) ''0123456789''))"
      "py_get mixed_payload ''events'' (JArr []) = Inr (JArr [derby, walkover])"
      "py_get six_events ''events'' (JArr []) = Inr (JArr (replicate 6 derby))"
    by (simp_all add: mixed_payload_def six_events_def)
  have b: "list_all well_formed_article
      (take (nat 3) (map (\<lambda>c. JObj [(''title'', JStr [c])]) ''0123456789''))"
    by simp
  have c: "map_of league_map ''premier-league'' = Some ''soccer/eng.1''"
    by (simp add: league_map_def)
  have d: "fst (fetch_soccer_scores (payload_world mixed_payload) ''premier-league'') = [derby_game]"
    by (simp add: fetch_soccer_scores_def c soccer_try_mixed)
  have e: "games (fst (fetch_nba_scores (payload_world mixed_payload))) = [derby_game]"
      "games (fst (fetch_nfl_scores (payload_world mixed_payload))) = [derby_game]"
      "length (games (fst (fetch_nba_scores (payload_world six_events)))) = 6"
      "length (games (fst (fetch_nfl_scores (payload_world six_events)))) = 6"
    by (simp_all add: fetch_nba_scores_def fetch_nfl_scores_def scoreboard_try_mixed
          scoreboard_try_six)
  have f: "list_all event_ok [derby, walkover]" "list_all event_ok (replicate 6 derby)"
      "list_all (\<lambda>ev. event_game ev \<noteq> Inr None) (replicate 6 derby)"
    by (simp_all add: event_ok_def event_game_derby event_game_walkover list_all_iff)
  show ?thesis
    using result_caps [of 3 "payload_world mixed_payload" example_generator "''India news''"
        mixed_payload "map (\<lambda>c. JObj [(''title'', JStr [c])]) ''0123456789''" "''premier-league''"
        "''soccer/eng.1''" mixed_payload "[derby, walkover]" mixed_payload "[derby, walkover]"
        mixed_payload "[derby, walkover]"]
      result_caps [of 3 "payload_world six_events" example_generator "''India news''"
        six_events "[]" "''premier-league''"
        "''soccer/eng.1''" six_events "replicate 6 derby" six_events "replicate 6 derby"
        six_events "replicate 6 derby"]
      a b c d e f fetch_news_three_of_ten get_json_payload
    by simp
qed

section \<open>How a game is rendered\<close>

text \<open>
  C9. The game Chelsea at Arsenal, 1 to 2, status \<^verbatim>\<open>Full Time\<close>: the NBA block shows the
  pair with \<^verbatim>\<open>@\<close>, the scores and the status; the soccer block shows the pair with
  \<^verbatim>\<open>vs\<close> and the scores, and nothing of the status, whatever the status is.
\<close>

theorem soccer_block_drops_status:
  \<open>render_nba_game other derby_game =
     ''\<newline>'' @
     ''                <div class="score-item">\<newline>'' @
     ''                    <div class="score-teams">Chelsea @ Arsenal</div>\<newline>'' @
     ''                    <div class="score-final">1 - 2</div>\<newline>'' @
     ''                    <div class="score-source">Full Time</div>\<newline>'' @
     ''                </div>\<newline>'' @
     ''                ''
   \<and> render_soccer_game other derby_game =
     ''\<newline>'' @
     ''                    <div class="score-item">\<newline>'' @
     ''                        <div class="score-teams">Chelsea vs Arsenal</div>\<newline>'' @
     ''                        <div class="score-final">1 - 2</div>\<newline>'' @
     ''                    </div>\<newline>'' @
     ''                    ''
   \<and> render_soccer_game other (game \<lparr> status := s \<rparr>) = render_soccer_game other game\<close>
  by (simp add: render_nba_game_def render_soccer_game_def derby_game_def)

section \<open>The digest: what the script does and what the two phases give\<close>

lemma html_template_KeyError: "py_format html_template [d] = Inl KeyError"
  by (simp add: py_format_def html_template_def format_field_def is_digit_def)

lemma generate_html_digest_raises: "generate_html_digest other w g = (Inl KeyError, [])"
  by (simp add: generate_html_digest_def html_template_KeyError)































text \<open>
  Outside the data model the script and the two phases part ways. When only the first news
  request is answered, with an article whose description is null, rendering that section
  raises and the loop ends: the fifteen other fetches, which the aggregation would run and
  report, never happen.
\<close>

lemma render_error_stops_fetching:
  "digest_sections other first_only_world example_generator html = (Inl TypeError, [])"
  "snd (spec_aggregate first_only_world example_generator) \<noteq> []"
proof -
  have a: "fetch_news first_only_world example_generator ''US news'' 5 =
      ([null_description_article], [])"
    by (simp add: fetch_news_def fetch_news_try_def get_json_def first_only_world_def
          null_description_payload_def slice_to_def article_record_def
          null_description_article_def)
  have b: "render_article other null_description_article = Inl TypeError"
    by (simp add: render_article_def summary_text_def null_description_article_def)
  show "digest_sections other first_only_world example_generator html = (Inl TypeError, [])"
    by (simp add: digest_sections_def news_sections_def a b)
  have c: "fetch_news first_only_world example_generator ''Europe news'' 5 =
      ([], [ErrLine ''Error fetching news for 'Europe news': '' RequestException])"
    by (simp add: fetch_news_def fetch_news_try_def get_json_def first_only_world_def
          news_params_def)
  show "snd (spec_aggregate first_only_world example_generator) \<noteq> []"
    by (simp add: spec_aggregate_def news_sections_def a c split: prod.splits)
qed

section \<open>One failing source and the other sections\<close>


lemma now_iso_answer [simp]: "now_iso (answer w u params r) = now_iso w"
  by (simp add: answer_def)
























section \<open>What a run produces\<close>

lemma init_some_set:
  "init \<lparr> environ = (\<lambda>k. Some ''set''), http = h, now_long = d, now_iso = i, smtp = s \<rparr> =
     Inr \<lparr> news_api_key = Some ''set'', sports_api_key = ''set'', sender_email = Some ''set'',
           sender_password = Some ''set'', recipient_email = Some ''set'' \<rparr>"
  by (simp add: init_def truthy_def)

text \<open>
  C2. In no run does \<^verbatim>\<open>generate_html_digest\<close> return an artifact: formatting the
  template raises \<^verbatim>\<open>KeyError\<close> whatever the date, before the first section is reached.
\<close>

theorem no_artifact_is_rendered:
  "py_format html_template [now_long w] = Inl KeyError
   \<and> fst (generate_html_digest other w g) = Inl KeyError"
  by (simp add: generate_html_digest_raises html_template_KeyError)

text \<open>
  C7. Every run ends with exit status 1 and nothing delivered, also with every setting
  present, every provider answering and the mail server accepting: the run then stops at
  the \<^verbatim>\<open>KeyError\<close> of line 166 and \<^verbatim>\<open>send_email\<close> is never called.
\<close>

theorem main_always_fails:
  "exit_code (main other w) = 1 \<and> delivered (main other w) = []
   \<and> init (payload_world mixed_payload) \<noteq> Inl ValueError
   \<and> smtp (payload_world mixed_payload) msg = None
   \<and> stdout (main other (payload_world mixed_payload)) =
       [Line ''Generating daily news digest...'', ErrLine ''Fatal error: '' KeyError]"
  by (cases "init w")
    (simp_all add: main_def generate_html_digest_raises payload_world_def init_some_set)

end
